theory Spec2Isabelle
  imports Main "HOL-Library.AList"
begin

section \<open>The classroom aggregate (models/classroom.ts)\<close>

text \<open>
  The TypeScript interfaces \<open>Student\<close> and \<open>LabSession\<close> and the class \<open>Classroom\<close>
  become records. JavaScript numbers that hold group numbers and millisecond timestamps
  are modelled as \<open>int\<close>; an optional field (\<open>group?: number\<close>, \<open>LabSession | null\<close>)
  is an \<open>option\<close>. \<open>Set<string>\<close> is a \<open>string set\<close>. The \<open>Collection\<close> (a JavaScript
  \<open>Map\<close>) holding the students is an association list in insertion order, read with
  \<open>map_of\<close> and written with \<open>AList.update\<close>, which like \<open>Map.set\<close> replaces the value of
  an existing key in place and appends a new key at the end.

  The class extends \<open>EventEmitter\<close>: every \<open>this.emit(...)\<close> is recorded, in order, in the
  field \<open>emitted\<close>, with a snapshot of the payload at the moment of the call. Calls of the
  logger change nothing the operations read and are left out.

  Records are values: an object handed to \<open>addStudent\<close> is taken to be referenced from
  this classroom only and to have a \<open>completedLabs\<close> set of its own, as the record that
  the group-join handler builds with \<open>new Set()\<close> has.
\<close>

record Student =
  student_id :: string
  student_name :: string
  student_group :: "int option"
  completedLabs :: "string set"

record LabSession =
  lab_id :: string
  lab_name :: string
  startTime :: int
  threadId :: string

datatype ClassroomEvent =
    StudentAdded Student
  | StudentGroupChanged Student int
  | LabStarted LabSession
  | LabCompleted Student LabSession

record Classroom =
  classroom_id :: string
  classroom_name :: string
  students :: "(string \<times> Student) list"
  groups :: int
  activeLabSession :: "LabSession option"
  emitted :: "ClassroomEvent list"

datatype error = AlreadyActive

text \<open>\<open>constructor(id, name, groups = 1)\<close>: \<open>this.groups = Math.max(1, groups)\<close>.\<close>

definition Classroom_new :: "string \<Rightarrow> string \<Rightarrow> int \<Rightarrow> Classroom" where
  "Classroom_new i n g =
     \<lparr>classroom_id = i, classroom_name = n, students = [], groups = max 1 g,
      activeLabSession = None, emitted = []\<rparr>"

definition addStudent :: "Classroom \<Rightarrow> Student \<Rightarrow> Classroom" where
  "addStudent c student =
     c\<lparr>students := AList.update (student_id student) student (students c),
       emitted := emitted c @ [StudentAdded student]\<rparr>"

definition getStudent :: "Classroom \<Rightarrow> string \<Rightarrow> Student option" where
  "getStudent c i = map_of (students c) i"

text \<open>
  \<open>assignStudentToGroup\<close> returns its boolean together with the classroom afterwards.
  \<open>student.group = group\<close> writes to the object stored under \<open>studentId\<close>.
\<close>

definition assignStudentToGroup :: "Classroom \<Rightarrow> string \<Rightarrow> int \<Rightarrow> bool \<times> Classroom" where
  "assignStudentToGroup c studentId g =
     (case map_of (students c) studentId of
        None \<Rightarrow> (False, c)
      | Some student \<Rightarrow>
          if g < 1 \<or> g > groups c then (False, c)
          else
            let student' = student\<lparr>student_group := Some g\<rparr>
            in (True, c\<lparr>students := AList.update studentId student' (students c),
                        emitted := emitted c @ [StudentGroupChanged student' g]\<rparr>))"

text \<open>
  \<open>Date.now().toString()\<close>: the decimal numeral of an integer number of milliseconds.
\<close>

fun digits :: "nat \<Rightarrow> string" where
  "digits n =
     (if n < 10 then [''0123456789'' ! n]
      else digits (n div 10) @ [''0123456789'' ! (n mod 10)])"

declare digits.simps [simp del]

definition toString :: "int \<Rightarrow> string" where
  "toString i = (if i < 0 then CHR ''-'' # digits (nat (- i)) else digits (nat i))"

text \<open>
  Reading a decimal numeral back, to say which clock reading an id was made from.
\<close>

definition digitValue :: "char \<Rightarrow> nat" where
  "digitValue ch = length (takeWhile (\<lambda>d. d \<noteq> ch) ''0123456789'')"

definition readDigits :: "string \<Rightarrow> nat" where
  "readDigits s = foldl (\<lambda>a ch. 10 * a + digitValue ch) 0 s"

definition readDecimal :: "string \<Rightarrow> int" where
  "readDecimal s =
     (case s of
        [] \<Rightarrow> 0
      | ch # r \<Rightarrow> if ch = CHR ''-'' then - int (readDigits r) else int (readDigits s))"

text \<open>
  \<open>startLab\<close> reads the clock twice, once with \<open>Date.now()\<close> for the id and once with
  \<open>new Date()\<close> for the start time; the two readings are the parameters \<open>dateNow\<close> and
  \<open>newDate\<close>. The thrown \<open>Error\<close> is the left summand; the classroom after the call is
  returned beside it in both cases, so that what a failed call leaves behind can be
  stated.
\<close>

definition startLab ::
  "Classroom \<Rightarrow> string \<Rightarrow> int \<Rightarrow> int \<Rightarrow> (error + LabSession) \<times> Classroom" where
  "startLab c labName dateNow newDate =
     (case activeLabSession c of
        Some _ \<Rightarrow> (Inl AlreadyActive, c)
      | None \<Rightarrow>
          let session = \<lparr>lab_id = toString dateNow, lab_name = labName,
                         startTime = newDate, threadId = classroom_id c\<rparr>
          in (Inr session, c\<lparr>activeLabSession := Some session,
                                  emitted := emitted c @ [LabStarted session]\<rparr>))"

definition completeLab :: "Classroom \<Rightarrow> string \<Rightarrow> bool \<times> Classroom" where
  "completeLab c studentId =
     (case activeLabSession c of
        None \<Rightarrow> (False, c)
      | Some session \<Rightarrow>
          (case map_of (students c) studentId of
             None \<Rightarrow> (False, c)
           | Some student \<Rightarrow>
               let isNewCompletion = (lab_id session \<notin> completedLabs student);
                   student' = student\<lparr>completedLabs := insert (lab_id session) (completedLabs student)\<rparr>;
                   c' = c\<lparr>students := AList.update studentId student' (students c)\<rparr>
               in (True,
                   if isNewCompletion
                   then c'\<lparr>emitted := emitted c' @ [LabCompleted student' session]\<rparr>
                   else c')))"

definition hasCompletedActiveLab :: "Classroom \<Rightarrow> string \<Rightarrow> bool" where
  "hasCompletedActiveLab c studentId =
     (case activeLabSession c of
        None \<Rightarrow> False
      | Some session \<Rightarrow>
          (case map_of (students c) studentId of
             None \<Rightarrow> False
           | Some student \<Rightarrow> lab_id session \<in> completedLabs student))"


subsection \<open>Sequences of operations\<close>

text \<open>
  A caller's use of a classroom is a list of calls of the four mutating operations; a
  call of \<open>startLab\<close> that throws leaves the classroom as it was and the sequence goes on
  (the command layer catches the error).
\<close>

datatype Operation =
    AddStudent Student
  | AssignStudentToGroup string int
  | StartLab string int int
  | CompleteLab string

fun perform :: "Classroom \<Rightarrow> Operation \<Rightarrow> Classroom" where
  "perform c (AddStudent s) = addStudent c s"
| "perform c (AssignStudentToGroup k g) = snd (assignStudentToGroup c k g)"
| "perform c (StartLab n t d) = snd (startLab c n t d)"
| "perform c (CompleteLab k) = snd (completeLab c k)"

definition run :: "Classroom \<Rightarrow> Operation list \<Rightarrow> Classroom" where
  "run c ops = foldl perform c ops"

text \<open>The invariants of the data model, as tests on a classroom.\<close>

definition groupInRange :: "int \<Rightarrow> Student \<Rightarrow> bool" where
  "groupInRange n st = (case student_group st of None \<Rightarrow> True | Some g \<Rightarrow> 1 \<le> g \<and> g \<le> n)"

fun isLabStarted :: "ClassroomEvent \<Rightarrow> bool" where
  "isLabStarted (LabStarted _) = True"
| "isLabStarted _ = False"

fun isLabCompleted :: "ClassroomEvent \<Rightarrow> bool" where
  "isLabCompleted (LabCompleted _ _) = True"
| "isLabCompleted _ = False"

definition labsStarted :: "Classroom \<Rightarrow> ClassroomEvent list" where
  "labsStarted c = filter isLabStarted (emitted c)"

definition labCompletedCount :: "Classroom \<Rightarrow> nat" where
  "labCompletedCount c = length (filter isLabCompleted (emitted c))"

text \<open>
  \<open>atMostOneLab\<close>: the \<open>lab-started\<close> events emitted so far are none while no session is
  active, and exactly the one of the active session otherwise. \<open>groupValid c k\<close>: the
  record stored under \<open>k\<close>, if there is one, has its group unset or within \<open>1..groups\<close>.
\<close>

definition atMostOneLab :: "Classroom \<Rightarrow> bool" where
  "atMostOneLab c \<longleftrightarrow>
     (case activeLabSession c of
        None \<Rightarrow> labsStarted c = []
      | Some session \<Rightarrow> labsStarted c = [LabStarted session])"

definition groupValid :: "Classroom \<Rightarrow> string \<Rightarrow> bool" where
  "groupValid c k =
     (case getStudent c k of None \<Rightarrow> True | Some st \<Rightarrow> groupInRange (groups c) st)"

text \<open>
  What a record handed to \<open>addStudent\<close> may carry: \<open>groupAdmissibleFor k n\<close> asks of a
  record with the id \<open>k\<close> a group that is unset or within \<open>1..n\<close>, \<open>freshlyAdded\<close> asks
  for an empty set of completed labs (the one caller, the group-join handler, builds
  \<open>{id, name, completedLabs: new Set()}\<close>).
\<close>

fun groupAdmissibleFor :: "string \<Rightarrow> int \<Rightarrow> Operation \<Rightarrow> bool" where
  "groupAdmissibleFor k n (AddStudent s) = (student_id s = k \<longrightarrow> groupInRange n s)"
| "groupAdmissibleFor k n _ = True"

text \<open>
  \<open>addedGroups k ops\<close>: the group fields of the records with the id \<open>k\<close> that \<open>ops\<close> hands
  to \<open>addStudent\<close>. \<open>groupValidOrAdded c k gs\<close>: the group of the record stored under \<open>k\<close>
  is unset, within \<open>1..groups\<close>, or one of \<open>gs\<close>.
\<close>

fun addedGroups :: "string \<Rightarrow> Operation list \<Rightarrow> int option list" where
  "addedGroups k [] = []"
| "addedGroups k (x # ops) =
     (case x of
        AddStudent s \<Rightarrow> if student_id s = k then student_group s # addedGroups k ops
                        else addedGroups k ops
      | _ \<Rightarrow> addedGroups k ops)"

definition groupValidOrAdded :: "Classroom \<Rightarrow> string \<Rightarrow> int option list \<Rightarrow> bool" where
  "groupValidOrAdded c k gs =
     (case getStudent c k of
        None \<Rightarrow> True
      | Some st \<Rightarrow> groupInRange (groups c) st \<or> student_group st \<in> set gs)"




subsection \<open>Example values\<close>

definition alice :: Student where
  "alice = \<lparr>student_id = ''u1'', student_name = ''alice'', student_group = None,
            completedLabs = {}\<rparr>"

definition lab1 :: LabSession where
  "lab1 = \<lparr>lab_id = ''1000'', lab_name = ''L1'', startTime = 1000, threadId = ''t1''\<rparr>"

definition room :: Classroom where
  "room = \<lparr>classroom_id = ''t1'', classroom_name = ''Intro'', students = [(''u1'', alice)],
           groups = 2, activeLabSession = Some lab1, emitted = []\<rparr>"

definition roomDone :: Classroom where
  "roomDone = snd (completeLab (snd (assignStudentToGroup room ''u1'' 2)) ''u1'')"

definition intruder :: "Operation list" where
  "intruder = [AddStudent alice, AssignStudentToGroup ''u1'' 2,
               AddStudent \<lparr>student_id = ''u2'', student_name = ''bob'', student_group = Some 7,
                           completedLabs = {}\<rparr>,
               StartLab ''L1'' 1000 1000, StartLab ''L2'' 2000 2000]"


section \<open>The live-update scheduler (utils/autoUpdateMessage.ts)\<close>

text \<open>
  \<open>createAutoUpdateMessage\<close> renders and posts once and then leaves behind timers and
  listeners whose callbacks run later, one at a time, on the single JavaScript thread.
  The record \<open>AutoUpdate\<close> holds the variables those closures share (\<open>endTime\<close>,
  \<open>updateCount\<close>, \<open>lastUpdateTime\<close>, \<open>pendingUpdate\<close>) and what the session has registered
  with the runtime:
  \<^item> \<open>intervalId\<close>: the \<open>setInterval\<close> timer is registered (\<open>clearInterval\<close> makes it
    false); \<open>intervalDue\<close> is the time of its next tick;
  \<^item> \<open>listeners\<close>: the session's listeners on the classroom, each with the event it is
    registered for and the reason it passes to \<open>queueUpdate\<close>;
  \<^item> \<open>timeouts\<close>: the \<open>setTimeout\<close> timers set by \<open>queueUpdate\<close> that have not fired yet,
    each with the clock reading when it was set, its delay and its reason;
  \<^item> \<open>cleanupTimeout\<close>: the final \<open>setTimeout(..., timeLimit)\<close> has not fired yet;
  \<^item> \<open>awaiting\<close>: the calls of \<open>performUpdate\<close> that are suspended at an \<open>await\<close>, each
    with the \<open>now\<close> it read on entry and its reason.
  Every \<open>Date.now()\<close> is a parameter of the function that reads it. Timers do not fire
  before they are due by that clock.
\<close>

definition DEFAULT_UPDATE_INTERVAL :: int where
  "DEFAULT_UPDATE_INTERVAL = 30 * 1000"

definition DEFAULT_UPDATE_LIMIT :: int where
  "DEFAULT_UPDATE_LIMIT = 15 * 60 * 1000"

definition MIN_UPDATE_INTERVAL :: int where
  "MIN_UPDATE_INTERVAL = 10 * 1000"

datatype ClassroomEventTypes = student_added | student_group_changed | lab_started | lab_completed

datatype Timeout = Timeout (setAt: int) (delay: int) (reason: string)

definition due :: "Timeout \<Rightarrow> int" where
  "due t = setAt t + delay t"

datatype Settled = Resolved | Rejected

record AutoUpdate =
  classroom :: bool
  interval :: int
  intervalDue :: int
  endTime :: int
  updateCount :: nat
  lastUpdateTime :: int
  pendingUpdate :: bool
  intervalId :: bool
  listeners :: "(ClassroomEventTypes \<times> string) list"
  timeouts :: "Timeout list"
  cleanupTimeout :: bool
  awaiting :: "(int \<times> string) list"

text \<open>
  The session as the synchronous tail of \<open>createAutoUpdateMessage\<close> leaves it, after the
  first post: \<open>start\<close> and \<open>now\<close> are the two clock readings for \<open>startTime\<close> and
  \<open>lastUpdateTime\<close>, \<open>cls\<close> says whether a classroom was passed.
\<close>

definition createAutoUpdateMessage ::
  "int \<Rightarrow> int \<Rightarrow> int \<Rightarrow> int \<Rightarrow> bool \<Rightarrow> AutoUpdate" where
  "createAutoUpdateMessage start now ival timeLimit cls =
     \<lparr>classroom = cls, interval = ival, intervalDue = now + ival,
      endTime = start + timeLimit, updateCount = 0,
      lastUpdateTime = now, pendingUpdate = False, intervalId = True,
      listeners = (if cls then [(student_added, ''student-joined''),
                                (student_group_changed, ''group-changed''),
                                (lab_completed, ''lab-completed'')] else []),
      timeouts = [], cleanupTimeout = True, awaiting = []\<rparr>"

definition removeEventListeners :: "AutoUpdate \<Rightarrow> AutoUpdate" where
  "removeEventListeners s = (if classroom s then s\<lparr>listeners := []\<rparr> else s)"

text \<open>
  The three places that stop a session run the same two statements,
  \<open>clearInterval(intervalId); if (classroom) removeEventListeners();\<close>.
\<close>

definition cleanUp :: "AutoUpdate \<Rightarrow> AutoUpdate" where
  "cleanUp s =
     (let s' = s\<lparr>intervalId := False\<rparr>
      in if classroom s' then removeEventListeners s' else s')"

text \<open>
  \<open>performUpdate\<close> runs in two steps. On entry it reads the clock, counts the update and
  suspends at \<open>await generateEmbed()\<close>. \<open>performUpdate_settled\<close> is the rest, run when the
  render and the post have settled: \<open>Rejected\<close> (one of them threw) enters the \<open>catch\<close>
  block; \<open>Resolved\<close> ends in the time-limit branch when the \<open>now\<close> read on entry had
  reached \<open>endTime\<close>, and otherwise in \<open>lastUpdateTime = now; pendingUpdate = false\<close>.
  Nothing between the two awaits reads or writes the shared variables.
\<close>

definition performUpdate :: "AutoUpdate \<Rightarrow> int \<Rightarrow> string \<Rightarrow> AutoUpdate" where
  "performUpdate s now r =
     s\<lparr>updateCount := updateCount s + 1, awaiting := awaiting s @ [(now, r)]\<rparr>"

definition dropAt :: "nat \<Rightarrow> 'a list \<Rightarrow> 'a list" where
  "dropAt i xs = take i xs @ drop (Suc i) xs"

definition performUpdate_settled :: "AutoUpdate \<Rightarrow> nat \<Rightarrow> Settled \<Rightarrow> AutoUpdate" where
  "performUpdate_settled s i outcome =
     (if i < length (awaiting s) then
        let now = fst (awaiting s ! i);
            s' = s\<lparr>awaiting := dropAt i (awaiting s)\<rparr>
        in (case outcome of
              Rejected \<Rightarrow> cleanUp s'
            | Resolved \<Rightarrow>
                if now \<ge> endTime s' then cleanUp s'
                else s'\<lparr>lastUpdateTime := now, pendingUpdate := False\<rparr>)
      else s)"

text \<open>
  \<open>queueUpdate\<close> reads the clock (\<open>now\<close>); when it calls \<open>performUpdate\<close> at once, that
  call reads the clock again (\<open>now'\<close>).
\<close>

definition queueUpdate :: "AutoUpdate \<Rightarrow> int \<Rightarrow> int \<Rightarrow> string \<Rightarrow> AutoUpdate" where
  "queueUpdate s now now' r =
     (let timeSinceLastUpdate = now - lastUpdateTime s
      in if timeSinceLastUpdate < MIN_UPDATE_INTERVAL then
           (if \<not> pendingUpdate s then
              let delay = MIN_UPDATE_INTERVAL - timeSinceLastUpdate
              in s\<lparr>pendingUpdate := True, timeouts := timeouts s @ [Timeout now delay r]\<rparr>
            else s)
         else performUpdate s now' r)"

text \<open>
  What the runtime can call back: the classroom emits an event (the listener registered
  for it, if any, runs \<open>queueUpdate\<close>), the interval ticks, a timeout of \<open>queueUpdate\<close>
  or the final timeout falls due, a suspended \<open>performUpdate\<close> settles. A callback whose
  timer or listener is not registered, or not yet due, does not run and the session
  stays as it is.
\<close>

datatype Callback =
    Emit ClassroomEventTypes int int
  | Interval int
  | TimeoutDue nat int
  | CleanupDue int
  | Settle nat Settled

fun dispatch :: "AutoUpdate \<Rightarrow> Callback \<Rightarrow> AutoUpdate" where
  "dispatch s (Emit e now now') =
     (case map_of (listeners s) e of
        None \<Rightarrow> s
      | Some r \<Rightarrow> queueUpdate s now now' r)"
| "dispatch s (Interval now) =
     (if intervalId s \<and> intervalDue s \<le> now
      then performUpdate (s\<lparr>intervalDue := intervalDue s + interval s\<rparr>) now ''scheduled''
      else s)"
| "dispatch s (TimeoutDue i now) =
     (if i < length (timeouts s) \<and> due (timeouts s ! i) \<le> now
      then performUpdate (s\<lparr>timeouts := dropAt i (timeouts s)\<rparr>) now (reason (timeouts s ! i))
      else s)"
| "dispatch s (CleanupDue now) =
     (if cleanupTimeout s \<and> endTime s \<le> now
      then cleanUp (s\<lparr>cleanupTimeout := False\<rparr>) else s)"
| "dispatch s (Settle i outcome) = performUpdate_settled s i outcome"

definition dispatchAll :: "AutoUpdate \<Rightarrow> Callback list \<Rightarrow> AutoUpdate" where
  "dispatchAll s cbs = foldl dispatch s cbs"



text \<open>
  The callbacks that end a session: the final timeout, and a \<open>performUpdate\<close> that
  settles after an error or after having read a clock at or past \<open>endTime\<close>.
\<close>

fun exits :: "AutoUpdate \<Rightarrow> Callback \<Rightarrow> bool" where
  "exits s (CleanupDue now) = (cleanupTimeout s \<and> endTime s \<le> now)"
| "exits s (Settle i outcome) =
     (i < length (awaiting s) \<and> (outcome = Rejected \<or> fst (awaiting s ! i) \<ge> endTime s))"
| "exits s _ = False"

definition ownsListeners :: "AutoUpdate \<Rightarrow> bool" where
  "ownsListeners s \<longleftrightarrow> classroom s \<or> listeners s = []"

definition tornDown :: "AutoUpdate \<Rightarrow> bool" where
  "tornDown s \<longleftrightarrow> \<not> intervalId s \<and> listeners s = []"

subsection \<open>Example sessions\<close>

definition session0 :: AutoUpdate where
  "session0 = createAutoUpdateMessage 0 0 DEFAULT_UPDATE_INTERVAL DEFAULT_UPDATE_LIMIT True"





definition failing :: AutoUpdate where
  "failing = dispatchAll session0
     [Emit lab_completed 25000 25000, Settle 0 Resolved, Emit lab_completed 26000 26000,
      Interval 30000]"

definition expiring :: AutoUpdate where
  "expiring = dispatchAll session0 [Interval 900000]"

section \<open>Construction and lookup\<close>

lemma toString_example: "toString 1700000000123 = ''1700000000123''"
  by (simp add: toString_def digits.simps)

text \<open>
  C7. For every integer \<open>g\<close>, the constructed classroom has \<open>groups = max 1 g\<close>, no
  students and no active lab session; for every \<open>g \<le> 0\<close> the group count is 1.
\<close>

theorem Classroom_new_groups:
  "groups (Classroom_new i n g) = max 1 g \<and>
   students (Classroom_new i n g) = [] \<and>
   getStudent (Classroom_new i n g) k = None \<and>
   activeLabSession (Classroom_new i n g) = None \<and>
   (g \<le> 0 \<longrightarrow> groups (Classroom_new i n g) = 1)"
  by (simp add: Classroom_new_def getStudent_def)

theorem Classroom_new_groups_witness:
  "(-3::int) \<le> 0 \<and> groups (Classroom_new ''t1'' ''Intro'' (-3)) = 1"
  using Classroom_new_groups [of "''t1''" "''Intro''" "-3"] by simp

text \<open>
  C9. After \<open>addStudent s\<close>, \<open>getStudent\<close> at the id of \<open>s\<close> returns \<open>s\<close> itself, so a
  record with the same id and the same name, whatever was stored under that id before.
\<close>

theorem addStudent_getStudent:
  "getStudent (addStudent c s) (student_id s) = Some s \<and>
   (\<exists>r. getStudent (addStudent c s) (student_id s) = Some r \<and>
        student_id r = student_id s \<and> student_name r = student_name s)"
  by (simp add: addStudent_def getStudent_def update_conv')

section \<open>Completing a lab\<close>

text \<open>
  C1. \<open>completeLab\<close> returns false and changes nothing when no lab session is active or
  the student id is not in the classroom. Otherwise it returns true, the student's
  record gains the active session's id in \<open>completedLabs\<close> and nothing else in the
  classroom changes; \<open>lab-completed\<close> is emitted exactly if the id was not in the set
  before. A second call right after returns true again, emits nothing and leaves the
  classroom as the first call left it, so the two calls together emit \<open>lab-completed\<close>
  once when the first of them is the student's first completion of that lab (and not at
  all when the student had completed it before).
\<close>

theorem completeLab_spec:
  "(activeLabSession c = None \<or> getStudent c k = None \<longrightarrow> completeLab c k = (False, c)) \<and>
   (\<forall>lab st. activeLabSession c = Some lab \<and> getStudent c k = Some st \<longrightarrow>
      (let st' = st\<lparr>completedLabs := insert (lab_id lab) (completedLabs st)\<rparr>;
           c' = snd (completeLab c k)
       in fst (completeLab c k) \<and>
          c'\<lparr>emitted := emitted c\<rparr> = c\<lparr>students := AList.update k st' (students c)\<rparr> \<and>
          getStudent c' k = Some st' \<and>
          emitted c' =
            emitted c @ (if lab_id lab \<in> completedLabs st then [] else [LabCompleted st' lab]) \<and>
          completeLab c' k = (True, c') \<and>
          labCompletedCount (snd (completeLab c' k)) =
            labCompletedCount c + (if lab_id lab \<in> completedLabs st then 0 else 1)))"
  by (auto simp: completeLab_def getStudent_def Let_def update_conv' labCompletedCount_def
                 insert_absorb
           split: option.splits)

theorem completeLab_spec_witness:
  "completeLab (Classroom_new ''t1'' ''Intro'' 2) ''u1'' = (False, Classroom_new ''t1'' ''Intro'' 2) \<and>
   fst (completeLab room ''u1'') \<and>
   completeLab (snd (completeLab room ''u1'')) ''u1'' = (True, snd (completeLab room ''u1'')) \<and>
   labCompletedCount (snd (completeLab (snd (completeLab room ''u1'')) ''u1'')) = 1"
proof -
  have e: "activeLabSession (Classroom_new ''t1'' ''Intro'' 2) = None"
    by (simp add: Classroom_new_def)
  have h: "activeLabSession room = Some lab1 \<and> getStudent room ''u1'' = Some alice"
    by (simp add: room_def getStudent_def)
  have n: "lab_id lab1 \<notin> completedLabs alice"
    by (simp add: alice_def)
  have z: "labCompletedCount room = 0"
    by (simp add: labCompletedCount_def room_def)
  from completeLab_spec [of "Classroom_new ''t1'' ''Intro'' 2" "''u1''"] e
  have 1: "completeLab (Classroom_new ''t1'' ''Intro'' 2) ''u1'' = (False, Classroom_new ''t1'' ''Intro'' 2)"
    by simp
  from completeLab_spec [of room "''u1''"] h n z 1 show ?thesis
    by (auto simp: Let_def)
qed

section \<open>Assigning a group\<close>

text \<open>
  C6. \<open>assignStudentToGroup\<close> returns false exactly when the student id is not registered
  or \<open>g < 1\<close> or \<open>g > groups\<close>, and then changes nothing and emits nothing. Otherwise it
  returns true, sets the group of that student's record to \<open>g\<close> and emits
  \<open>student-group-changed\<close> with the record and \<open>g\<close>; a second call with the same group
  returns true and emits the same event once more.
\<close>

theorem assignStudentToGroup_spec:
  "(fst (assignStudentToGroup c k g) = False \<longleftrightarrow>
      getStudent c k = None \<or> g < 1 \<or> g > groups c) \<and>
   (getStudent c k = None \<or> g < 1 \<or> g > groups c \<longrightarrow>
      assignStudentToGroup c k g = (False, c)) \<and>
   (\<forall>st. getStudent c k = Some st \<and> 1 \<le> g \<and> g \<le> groups c \<longrightarrow>
      (let st' = st\<lparr>student_group := Some g\<rparr>;
           c' = c\<lparr>students := AList.update k st' (students c),
                  emitted := emitted c @ [StudentGroupChanged st' g]\<rparr>
       in assignStudentToGroup c k g = (True, c') \<and>
          getStudent c' k = Some st' \<and>
          assignStudentToGroup c' k g =
            (True, c'\<lparr>emitted := emitted c @
                       [StudentGroupChanged st' g, StudentGroupChanged st' g]\<rparr>)))"
  by (auto simp: assignStudentToGroup_def getStudent_def Let_def update_conv'
           split: option.splits)

theorem assignStudentToGroup_spec_witness:
  "assignStudentToGroup room ''u1'' 3 = (False, room) \<and>
   assignStudentToGroup room ''u9'' 1 = (False, room) \<and>
   fst (assignStudentToGroup room ''u1'' 2) \<and>
   emitted (snd (assignStudentToGroup (snd (assignStudentToGroup room ''u1'' 2)) ''u1'' 2)) =
     [StudentGroupChanged (alice\<lparr>student_group := Some 2\<rparr>) 2,
      StudentGroupChanged (alice\<lparr>student_group := Some 2\<rparr>) 2]"
proof -
  have a: "getStudent room ''u1'' = Some alice" "getStudent room ''u9'' = None"
    "groups room = 2" "emitted room = []"
    by (simp_all add: room_def getStudent_def)
  from assignStudentToGroup_spec [of room "''u1''" 3] a
  have 1: "assignStudentToGroup room ''u1'' 3 = (False, room)"
    by simp
  from assignStudentToGroup_spec [of room "''u9''" 1] a
  have 2: "assignStudentToGroup room ''u9'' 1 = (False, room)"
    by simp
  from assignStudentToGroup_spec [of room "''u1''" 2] a 1 2 show ?thesis
    by (simp add: Let_def)
qed

section \<open>Starting a lab\<close>

lemma digitValue_nth: "d < 10 \<Longrightarrow> digitValue (''0123456789'' ! d) = d"
  by (auto simp: numeral_eq_Suc less_Suc_eq digitValue_def)

lemma nth_not_minus: "d < 10 \<Longrightarrow> ''0123456789'' ! d \<noteq> CHR ''-''"
  by (auto simp: numeral_eq_Suc less_Suc_eq)

lemma readDigits_snoc: "readDigits (s @ [ch]) = 10 * readDigits s + digitValue ch"
  by (simp add: readDigits_def)

lemma readDigits_digits: "readDigits (digits n) = n"
proof (induction n rule: digits.induct)
  case (1 n)
  show ?case
  proof (cases "n < 10")
    case True
    then show ?thesis
      by (simp add: digits.simps [of n] readDigits_def digitValue_nth)
  next
    case False
    with 1 have "readDigits (digits (n div 10)) = n div 10"
      by simp
    with False show ?thesis
      by (simp add: digits.simps [of n] readDigits_snoc digitValue_nth)
  qed
qed

lemma digits_first: "\<exists>ch r. digits n = ch # r \<and> ch \<noteq> CHR ''-''"
proof (induction n rule: digits.induct)
  case (1 n)
  show ?case
  proof (cases "n < 10")
    case True
    then show ?thesis
      by (simp add: digits.simps [of n] nth_not_minus)
  next
    case False
    with 1 obtain ch r where "digits (n div 10) = ch # r" "ch \<noteq> CHR ''-''"
      by auto
    with False show ?thesis
      by (simp add: digits.simps [of n])
  qed
qed

lemma readDecimal_toString: "readDecimal (toString i) = i"
proof (cases "i < 0")
  case True
  then show ?thesis
    by (simp add: toString_def readDecimal_def readDigits_digits)
next
  case False
  obtain ch r where d: "digits (nat i) = ch # r" "ch \<noteq> CHR ''-''"
    using digits_first by blast
  have "readDigits (digits (nat i)) = nat i"
    by (rule readDigits_digits)
  with d False show ?thesis
    by (simp add: toString_def readDecimal_def)
qed

lemma toString_inject: "toString a = toString b \<Longrightarrow> a = b"
  by (metis readDecimal_toString)

text \<open>
  C4. \<open>startLab\<close> throws the "already active" error exactly when a lab session is
  active, and the classroom is then unchanged. With no active session it builds a
  session whose id is the decimal numeral of the clock reading, whose name is the given
  name and whose \<open>threadId\<close> is the classroom's id, makes it the active session, emits
  \<open>lab-started\<close> with it and returns it. The id is derived from the time: read back as
  a decimal numeral it is the clock reading, so a call that returns a session with the
  same id has read the same clock value.
\<close>

theorem startLab_spec:
  "(fst (startLab c n t d) = Inl AlreadyActive \<longleftrightarrow> activeLabSession c \<noteq> None) \<and>
   (activeLabSession c \<noteq> None \<longrightarrow> startLab c n t d = (Inl AlreadyActive, c)) \<and>
   (activeLabSession c = None \<longrightarrow>
      (let session = \<lparr>lab_id = toString t, lab_name = n, startTime = d,
                       threadId = classroom_id c\<rparr>
       in startLab c n t d =
            (Inr session, c\<lparr>activeLabSession := Some session,
                            emitted := emitted c @ [LabStarted session]\<rparr>))) \<and>
   (\<forall>session c'. startLab c n t d = (Inr session, c') \<longrightarrow>
      readDecimal (lab_id session) = t \<and>
      (\<forall>n' t' d' session' c''.
         startLab c n' t' d' = (Inr session', c'') \<and> lab_id session' = lab_id session \<longrightarrow>
         t' = t))"
proof -
  have 1: "fst (startLab c n t d) = Inl AlreadyActive \<longleftrightarrow> activeLabSession c \<noteq> None"
    by (auto simp: startLab_def Let_def split: option.splits)
  have 2: "activeLabSession c \<noteq> None \<longrightarrow> startLab c n t d = (Inl AlreadyActive, c)"
    by (auto simp: startLab_def)
  have 3: "activeLabSession c = None \<longrightarrow>
      (let session = \<lparr>lab_id = toString t, lab_name = n, startTime = d,
                       threadId = classroom_id c\<rparr>
       in startLab c n t d =
            (Inr session, c\<lparr>activeLabSession := Some session,
                            emitted := emitted c @ [LabStarted session]\<rparr>))"
    by (simp add: startLab_def Let_def)
  have 4: "\<forall>session c'. startLab c n t d = (Inr session, c') \<longrightarrow>
      readDecimal (lab_id session) = t \<and>
      (\<forall>n' t' d' session' c''.
         startLab c n' t' d' = (Inr session', c'') \<and> lab_id session' = lab_id session \<longrightarrow>
         t' = t)"
    by (auto simp: startLab_def Let_def readDecimal_toString split: option.splits
             dest: toString_inject)
  from 1 2 3 4 show ?thesis
    by blast
qed

theorem startLab_spec_witness:
  "startLab room ''L2'' 2000 2001 = (Inl AlreadyActive, room) \<and>
   fst (startLab (Classroom_new ''t1'' ''Intro'' 2) ''L1'' 1000 1001) =
     Inr \<lparr>lab_id = ''1000'', lab_name = ''L1'', startTime = 1001, threadId = ''t1''\<rparr> \<and>
   fst (startLab (Classroom_new ''t1'' ''Intro'' 2) ''L1'' 1700000000123 1700000000123) =
     Inr \<lparr>lab_id = ''1700000000123'', lab_name = ''L1'', startTime = 1700000000123,
          threadId = ''t1''\<rparr> \<and>
   readDecimal ''1700000000123'' = 1700000000123"
proof -
  have a: "activeLabSession room \<noteq> None"
    "activeLabSession (Classroom_new ''t1'' ''Intro'' 2) = None"
    by (simp_all add: room_def Classroom_new_def)
  have t: "toString 1000 = ''1000''" "toString 1700000000123 = ''1700000000123''"
    by (simp_all add: toString_def digits.simps)
  from startLab_spec [of room "''L2''" 2000 2001] a
  have 1: "startLab room ''L2'' 2000 2001 = (Inl AlreadyActive, room)"
    by simp
  from startLab_spec [of "Classroom_new ''t1'' ''Intro'' 2" "''L1''" 1000 1001] a t
  have 2: "fst (startLab (Classroom_new ''t1'' ''Intro'' 2) ''L1'' 1000 1001) =
     Inr \<lparr>lab_id = ''1000'', lab_name = ''L1'', startTime = 1001, threadId = ''t1''\<rparr>"
    by (simp add: Let_def Classroom_new_def)
  from startLab_spec [of "Classroom_new ''t1'' ''Intro'' 2" "''L1''" 1700000000123 1700000000123] a t
  have 3: "fst (startLab (Classroom_new ''t1'' ''Intro'' 2) ''L1'' 1700000000123 1700000000123) =
     Inr \<lparr>lab_id = ''1700000000123'', lab_name = ''L1'', startTime = 1700000000123,
          threadId = ''t1''\<rparr> \<and>
   readDecimal ''1700000000123'' = 1700000000123"
    by (auto simp: Let_def Classroom_new_def)
  from 1 2 3 show ?thesis
    by simp
qed

section \<open>Adding a student again\<close>

text \<open>
  C10. \<open>addStudent\<close> replaces the stored record. In a classroom where the student \<open>k\<close> has
  completed the active lab, adding a fresh record with the id \<open>k\<close>, no group and an empty
  \<open>completedLabs\<close> makes \<open>hasCompletedActiveLab k\<close> false, and the record found under \<open>k\<close>
  afterwards is the fresh one: the earlier group and completions are gone.
\<close>

theorem addStudent_erases_history:
  "hasCompletedActiveLab c k \<Longrightarrow>
   fresh = \<lparr>student_id = k, student_name = n, student_group = None, completedLabs = {}\<rparr> \<Longrightarrow>
   \<not> hasCompletedActiveLab (addStudent c fresh) k \<and>
   getStudent (addStudent c fresh) k = Some fresh \<and>
   map_option student_group (getStudent (addStudent c fresh) k) = Some None \<and>
   map_option completedLabs (getStudent (addStudent c fresh) k) = Some {}"
  by (auto simp: hasCompletedActiveLab_def addStudent_def getStudent_def update_conv'
           split: option.splits)

theorem addStudent_erases_history_witness:
  "hasCompletedActiveLab roomDone ''u1'' \<and>
   map_option student_group (getStudent roomDone ''u1'') = Some (Some 2) \<and>
   \<not> hasCompletedActiveLab (addStudent roomDone alice) ''u1'' \<and>
   map_option student_group (getStudent (addStudent roomDone alice) ''u1'') = Some None"
proof -
  have g: "getStudent roomDone ''u1'' =
             Some (alice\<lparr>student_group := Some 2, completedLabs := {''1000''}\<rparr>)"
    by (simp add: roomDone_def room_def lab1_def alice_def completeLab_def
                  assignStudentToGroup_def getStudent_def Let_def)
  have h: "hasCompletedActiveLab roomDone ''u1''"
    by (simp add: roomDone_def room_def lab1_def alice_def completeLab_def
                  assignStudentToGroup_def hasCompletedActiveLab_def Let_def)
  have f: "alice = \<lparr>student_id = ''u1'', student_name = ''alice'', student_group = None,
                    completedLabs = {}\<rparr>"
    by (simp add: alice_def)
  from addStudent_erases_history [OF h f] h g show ?thesis
    by (simp add: alice_def)
qed

section \<open>Invariants along sequences of operations\<close>



lemma groups_perform: "groups (perform c x) = groups c"
  by (cases x)
     (auto simp: addStudent_def assignStudentToGroup_def startLab_def completeLab_def Let_def
           split: option.splits)

lemma groups_run: "groups (run c ops) = groups c"
  unfolding run_def by (induction ops arbitrary: c) (simp_all add: groups_perform)

lemma atMostOneLab_perform: "atMostOneLab c \<Longrightarrow> atMostOneLab (perform c x)"
  by (cases x)
     (auto simp: atMostOneLab_def labsStarted_def addStudent_def assignStudentToGroup_def
                 startLab_def completeLab_def Let_def
           split: option.splits)

lemma atMostOneLab_run: "atMostOneLab c \<Longrightarrow> atMostOneLab (run c ops)"
  unfolding run_def by (induction ops arbitrary: c) (simp_all add: atMostOneLab_perform)

lemma groupValid_perform:
  "groupValid c k \<Longrightarrow> groupAdmissibleFor k (groups c) x \<Longrightarrow> groupValid (perform c x) k"
  by (cases x)
     (auto simp: groupValid_def getStudent_def groupInRange_def addStudent_def
                 assignStudentToGroup_def startLab_def completeLab_def update_conv' Let_def
           split: option.splits if_splits)

lemma groupValid_run:
  "groupValid c k \<Longrightarrow> list_all (groupAdmissibleFor k (groups c)) ops \<Longrightarrow>
   groupValid (run c ops) k"
proof (induction ops arbitrary: c)
  case Nil
  then show ?case by (simp add: run_def)
next
  case (Cons x ops)
  from Cons.prems have "groupValid (perform c x) k"
    by (simp add: groupValid_perform)
  moreover from Cons.prems have "list_all (groupAdmissibleFor k (groups (perform c x))) ops"
    by (simp add: groups_perform)
  ultimately have "groupValid (run (perform c x) ops) k"
    by (rule Cons.IH)
  then show ?case by (simp add: run_def)
qed

lemma groupValidOrAdded_perform:
  "groupValidOrAdded c k gs \<Longrightarrow> groupValidOrAdded (perform c x) k (gs @ addedGroups k [x])"
  by (cases x)
     (auto simp: groupValidOrAdded_def getStudent_def groupInRange_def addStudent_def
                 assignStudentToGroup_def startLab_def completeLab_def update_conv' Let_def
           split: option.splits if_splits)

lemma addedGroups_Cons: "addedGroups k (x # ops) = addedGroups k [x] @ addedGroups k ops"
  by (cases x) simp_all

lemma groupValidOrAdded_run:
  "groupValidOrAdded c k gs \<Longrightarrow> groupValidOrAdded (run c ops) k (gs @ addedGroups k ops)"
proof (induction ops arbitrary: c gs)
  case Nil
  then show ?case by (simp add: run_def)
next
  case (Cons x ops)
  from Cons.prems have "groupValidOrAdded (perform c x) k (gs @ addedGroups k [x])"
    by (rule groupValidOrAdded_perform)
  then have "groupValidOrAdded (run (perform c x) ops) k
               ((gs @ addedGroups k [x]) @ addedGroups k ops)"
    by (rule Cons.IH)
  then show ?case
    by (simp add: run_def addedGroups_Cons [of k x ops] del: addedGroups.simps)
qed

lemma groupValidOrAdded_new: "groupValidOrAdded (run (Classroom_new i n g) ops) k (addedGroups k ops)"
proof -
  have "groupValidOrAdded (Classroom_new i n g) k []"
    by (simp add: groupValidOrAdded_def getStudent_def Classroom_new_def)
  from groupValidOrAdded_run [OF this, of ops] show ?thesis
    by simp
qed


text \<open>
  C5, as amended. In every classroom reached from construction by any sequence of
  \<open>addStudent\<close>, \<open>assignStudentToGroup\<close>, \<open>startLab\<close> and \<open>completeLab\<close>, the group count is
  the constructor's \<open>max 1 g\<close>, so at least 1, and at most one lab session was ever
  started, which is then the active one. For every student id \<open>k\<close>, the group of the
  record stored under \<open>k\<close>, if set, is within \<open>1..groups\<close> or is a group that a record with
  the id \<open>k\<close> carried when it was handed to \<open>addStudent\<close>; so it is within \<open>1..groups\<close>
  whenever every record with the id \<open>k\<close> handed to \<open>addStudent\<close> had its group unset or
  within \<open>1..groups\<close>.
\<close>

theorem classroomInvariant_reachable:
  "groups (run (Classroom_new i n g) ops) = max 1 g \<and>
   1 \<le> groups (run (Classroom_new i n g) ops) \<and>
   atMostOneLab (run (Classroom_new i n g) ops) \<and>
   groupValidOrAdded (run (Classroom_new i n g) ops) k (addedGroups k ops) \<and>
   (list_all (groupAdmissibleFor k (max 1 g)) ops \<longrightarrow>
      groupValid (run (Classroom_new i n g) ops) k)"
proof -
  have g: "groups (Classroom_new i n g) = max 1 g"
    by (simp add: Classroom_new_def)
  then have 1: "groups (run (Classroom_new i n g) ops) = max 1 g"
    by (simp add: groups_run)
  have "atMostOneLab (Classroom_new i n g)"
    by (simp add: atMostOneLab_def labsStarted_def Classroom_new_def)
  then have 2: "atMostOneLab (run (Classroom_new i n g) ops)"
    by (rule atMostOneLab_run)
  have "groupValid (Classroom_new i n g) k"
    by (simp add: groupValid_def getStudent_def Classroom_new_def)
  from groupValid_run [OF this, of ops] g
  have 3: "list_all (groupAdmissibleFor k (max 1 g)) ops \<longrightarrow>
      groupValid (run (Classroom_new i n g) ops) k"
    by simp
  from 1 2 3 groupValidOrAdded_new [of i n g ops k] show ?thesis
    by simp
qed

theorem classroomInvariant_reachable_witness:
  "groups (run (Classroom_new ''t1'' ''Intro'' 0) intruder) = 1 \<and>
   atMostOneLab (run (Classroom_new ''t1'' ''Intro'' 2) intruder) \<and>
   list_all (groupAdmissibleFor ''u1'' (max 1 2)) intruder \<and>
   groupValid (run (Classroom_new ''t1'' ''Intro'' 2) intruder) ''u1'' \<and>
   map_option student_group (getStudent (run (Classroom_new ''t1'' ''Intro'' 2) intruder) ''u1'') =
     Some (Some 2) \<and>
   groupValidOrAdded (run (Classroom_new ''t1'' ''Intro'' 2) intruder) ''u2'' [Some 7]"
proof -
  have h: "list_all (groupAdmissibleFor ''u1'' (max 1 2)) intruder"
    by (simp add: intruder_def alice_def groupInRange_def)
  have v: "map_option student_group
             (getStudent (run (Classroom_new ''t1'' ''Intro'' 2) intruder) ''u1'') = Some (Some 2)"
    by (simp add: intruder_def alice_def run_def Classroom_new_def addStudent_def
          assignStudentToGroup_def startLab_def getStudent_def Let_def)
  have a: "addedGroups ''u2'' intruder = [Some 7]"
    by (simp add: intruder_def alice_def)
  from classroomInvariant_reachable [of "''t1''" "''Intro''" 0 intruder "''u1''"]
    classroomInvariant_reachable [of "''t1''" "''Intro''" 2 intruder "''u1''"]
    classroomInvariant_reachable [of "''t1''" "''Intro''" 2 intruder "''u2''"] h v a
  show ?thesis
    by simp
qed

text \<open>
  As C5 is written, with the range of the groups promised after every sequence of the
  operations, it fails: \<open>addStudent\<close> stores the record it is given, and a record that
  already carries group 7 ends up in a classroom of 2 groups.
\<close>

theorem classroomInvariant_counterexample:
  "\<not> groupValid
       (run (Classroom_new ''t1'' ''Intro'' 2) [AddStudent (alice\<lparr>student_group := Some 7\<rparr>)])
       ''u1''"
  by (simp add: groupValid_def getStudent_def run_def Classroom_new_def addStudent_def alice_def
                groupInRange_def)

section \<open>Having completed the active lab\<close>









section \<open>Rate limiting of event-driven updates\<close>

lemma session0_eval:
  "session0 =
     \<lparr>classroom = True, interval = 30000, intervalDue = 30000, endTime = 900000,
      updateCount = 0, lastUpdateTime = 0, pendingUpdate = False, intervalId = True,
      listeners = [(student_added, ''student-joined''),
                   (student_group_changed, ''group-changed''),
                   (lab_completed, ''lab-completed'')],
      timeouts = [], cleanupTimeout = True, awaiting = []\<rparr>"
  by (simp add: session0_def createAutoUpdateMessage_def DEFAULT_UPDATE_INTERVAL_def
        DEFAULT_UPDATE_LIMIT_def)












section \<open>Stopping a session\<close>

lemma ownsListeners_dispatch: "ownsListeners s \<Longrightarrow> ownsListeners (dispatch s cb)"
  by (cases cb)
     (auto simp: ownsListeners_def queueUpdate_def performUpdate_def performUpdate_settled_def
                 cleanUp_def removeEventListeners_def Let_def
           split: option.splits Settled.splits)

lemma ownsListeners_dispatchAll: "ownsListeners s \<Longrightarrow> ownsListeners (dispatchAll s cbs)"
  unfolding dispatchAll_def by (induction cbs arbitrary: s) (simp_all add: ownsListeners_dispatch)

lemma ownsListeners_create: "ownsListeners (createAutoUpdateMessage start now ival timeLimit cls)"
  by (simp add: ownsListeners_def createAutoUpdateMessage_def)

lemma tornDown_dispatch: "tornDown s \<Longrightarrow> tornDown (dispatch s cb)"
  by (cases cb)
     (auto simp: tornDown_def queueUpdate_def performUpdate_def performUpdate_settled_def
                 cleanUp_def removeEventListeners_def Let_def
           split: option.splits Settled.splits)

lemma tornDown_dispatchAll: "tornDown s \<Longrightarrow> tornDown (dispatchAll s cbs)"
  unfolding dispatchAll_def by (induction cbs arbitrary: s) (simp_all add: tornDown_dispatch)

lemma exits_tornDown: "ownsListeners s \<Longrightarrow> exits s cb \<Longrightarrow> tornDown (dispatch s cb)"
  by (cases cb)
     (auto simp: ownsListeners_def tornDown_def performUpdate_settled_def
                 cleanUp_def removeEventListeners_def Let_def
           split: Settled.splits)

text \<open>
  C3, as amended. In every session reached from its creation by any callbacks, each of
  the three ways out, (a) an update that read a clock at or past \<open>endTime\<close> settles,
  (b) the final timeout fires, (c) an update settles with an error, leaves the interval
  timer cleared and no listener of the session registered on the classroom. Whatever
  callbacks follow, both stay so, and a tick of the interval or an event of the
  classroom no longer reaches the session.
\<close>

theorem teardown_releases:
  "s = dispatchAll (createAutoUpdateMessage start now ival timeLimit cls) cbs \<Longrightarrow>
   exits s cb \<Longrightarrow>
   tornDown (dispatch s cb) \<and>
   tornDown (dispatchAll (dispatch s cb) after) \<and>
   dispatch (dispatchAll (dispatch s cb) after) (Interval t) = dispatchAll (dispatch s cb) after \<and>
   dispatch (dispatchAll (dispatch s cb) after) (Emit e t t') = dispatchAll (dispatch s cb) after"
proof -
  assume s: "s = dispatchAll (createAutoUpdateMessage start now ival timeLimit cls) cbs"
    and e: "exits s cb"
  from s have "ownsListeners s"
    by (simp add: ownsListeners_dispatchAll ownsListeners_create)
  then have 1: "tornDown (dispatch s cb)"
    using e by (rule exits_tornDown)
  then have 2: "tornDown (dispatchAll (dispatch s cb) after)"
    by (rule tornDown_dispatchAll)
  from 1 2 show ?thesis
    by (simp add: tornDown_def)
qed

lemma failing_eval:
  "failing = session0\<lparr>intervalDue := 60000, updateCount := 2, lastUpdateTime := 25000,
                      pendingUpdate := True,
                      timeouts := [Timeout 26000 9000 ''lab-completed''],
                      awaiting := [(30000, ''scheduled'')]\<rparr>"
  by (simp add: failing_def session0_eval dispatchAll_def queueUpdate_def performUpdate_def
        performUpdate_settled_def dropAt_def Let_def MIN_UPDATE_INTERVAL_def)

lemma expiring_eval:
  "expiring = session0\<lparr>intervalDue := 60000, updateCount := 1,
                       awaiting := [(900000, ''scheduled'')]\<rparr>"
  by (simp add: expiring_def session0_eval dispatchAll_def performUpdate_def)

theorem teardown_releases_witness:
  "exits expiring (Settle 0 Resolved) \<and>
   tornDown (dispatch expiring (Settle 0 Resolved)) \<and>
   exits failing (Settle 0 Rejected) \<and>
   tornDown (dispatch failing (Settle 0 Rejected)) \<and>
   exits failing (CleanupDue 900000) \<and>
   tornDown (dispatch failing (CleanupDue 900000)) \<and>
   tornDown (dispatchAll (dispatch failing (CleanupDue 900000))
               [Settle 0 Resolved, Emit lab_completed 900500 900500])"
proof -
  have s: "failing = dispatchAll
             (createAutoUpdateMessage 0 0 DEFAULT_UPDATE_INTERVAL DEFAULT_UPDATE_LIMIT True)
             [Emit lab_completed 25000 25000, Settle 0 Resolved, Emit lab_completed 26000 26000,
              Interval 30000]"
    by (simp add: failing_def session0_def)
  have x: "expiring = dispatchAll
             (createAutoUpdateMessage 0 0 DEFAULT_UPDATE_INTERVAL DEFAULT_UPDATE_LIMIT True)
             [Interval 900000]"
    by (simp add: expiring_def session0_def)
  have e0: "exits expiring (Settle 0 Resolved)"
    by (simp add: expiring_eval session0_eval)
  have e1: "exits failing (Settle 0 Rejected)"
    by (simp add: failing_eval)
  have e2: "exits failing (CleanupDue 900000)"
    by (simp add: failing_eval session0_eval)
  from teardown_releases [OF x e0] teardown_releases [OF s e1] teardown_releases [OF s e2]
    e0 e1 e2
  show ?thesis
    by simp
qed

text \<open>
  As C3 is written it fails: the handle that \<open>setTimeout\<close> returns in \<open>queueUpdate\<close> is not
  kept, and no way out clears that timeout. In \<open>failing\<close> an update was deferred at 26000
  to fire at 35000 and the interval's update of 30000 is suspended; when it settles with
  an error the session is stopped, yet the timeout is still set (and so is the final
  timeout), and at 35000 it fires and runs \<open>performUpdate\<close> once more.
\<close>

theorem teardown_counterexample:
  "timeouts (dispatch failing (Settle 0 Rejected)) = [Timeout 26000 9000 ''lab-completed''] \<and>
   cleanupTimeout (dispatch failing (Settle 0 Rejected)) \<and>
   updateCount (dispatchAll failing [Settle 0 Rejected, TimeoutDue 0 35000]) =
     updateCount (dispatch failing (Settle 0 Rejected)) + 1"
  by (simp add: failing_eval session0_eval dispatchAll_def performUpdate_def
        performUpdate_settled_def cleanUp_def removeEventListeners_def due_def dropAt_def
        Let_def)

end
